theory Spec2Isabelle
  imports Main
begin

section \<open>Handles, status codes and exceptions\<close>

text \<open>
  The source is \<^verbatim>\<open>gui/include/tiny-cuda-nn/cuda_graph.h\<close>. Every CUDA handle
  (\<^verbatim>\<open>cudaStream_t\<close>, \<^verbatim>\<open>cudaGraph_t\<close>, \<^verbatim>\<open>cudaGraphExec_t\<close>) and every
  \<^verbatim>\<open>CudaGraph*\<close> is a pointer; a pointer is modelled by its address, and
  \<^verbatim>\<open>nullptr\<close> is address 0, so that \<^verbatim>\<open>if (m_graph)\<close> reads \<open>m_graph \<noteq> nullptr\<close>.
\<close>

type_synonym ptr = nat

definition nullptr :: ptr where
  "nullptr = 0"

type_synonym cudaStream_t = ptr
type_synonym cudaGraph_t = ptr
type_synonym cudaGraphExec_t = ptr

text \<open>The CUDA runtime's handle of the legacy default stream, \<^verbatim>\<open>((cudaStream_t)0x1)\<close>.\<close>

definition cudaStreamLegacy :: cudaStream_t where
  "cudaStreamLegacy = 1"

text \<open>
  \<^verbatim>\<open>cudaError_t\<close> and \<^verbatim>\<open>cudaGraphExecUpdateResult\<close> are open enumerations of the
  CUDA runtime; the source compares them with three of their values only, so they are
  numbers with those values named.
\<close>

type_synonym cudaError_t = nat

definition cudaSuccess :: cudaError_t where
  "cudaSuccess = 0"

definition cudaErrorStreamCaptureImplicit :: cudaError_t where
  "cudaErrorStreamCaptureImplicit = 906"

type_synonym cudaGraphExecUpdateResult = nat

definition cudaGraphExecUpdateSuccess :: cudaGraphExecUpdateResult where
  "cudaGraphExecUpdateSuccess = 0"

datatype cudaStreamCaptureStatus =
    cudaStreamCaptureStatusNone
  | cudaStreamCaptureStatusActive
  | cudaStreamCaptureStatusInvalidated

text \<open>
  The only exception type of the file is \<^verbatim>\<open>std::runtime_error\<close>, carrying its
  \<^verbatim>\<open>what()\<close> text.
\<close>

datatype exn = runtime_error string

text \<open>
  A call either returns, or leaves by an exception, or has undefined behaviour
  (\<^verbatim>\<open>back()\<close> and \<^verbatim>\<open>pop_back()\<close> of an empty \<^verbatim>\<open>std::deque\<close>).
\<close>

datatype 'a outcome = Returned 'a | Thrown exn | Undefined

section \<open>The platform\<close>

text \<open>
  The CUDA runtime is a black box. The calls the source issues are recorded, in order, so
  that "nothing was launched" or "exactly one executable was instantiated" can be said.
\<close>

datatype call =
    StreamIsCapturing cudaStream_t
  | GraphDestroy cudaGraph_t
  | StreamBeginCapture cudaStream_t
  | StreamEndCapture cudaStream_t
  | DeviceSynchronize
  | GraphExecDestroy cudaGraphExec_t
  | GraphExecUpdate cudaGraphExec_t cudaGraph_t
  | GraphInstantiate cudaGraph_t
  | GraphLaunch cudaGraphExec_t cudaStream_t

text \<open>
  What the runtime answers during one operation of a manager: for each primitive, its
  status and the value it stores through its out-parameter (the value is stored before
  the status is looked at, as in \<^verbatim>\<open>CUDA_CHECK_THROW(cudaStreamEndCapture(stream, &m_graph))\<close>).
  Within one operation no primitive is called twice with the same arguments, so a
  function of the arguments is enough; successive operations are given successive
  answers.

  \<open>what_text\<close> is the \<^verbatim>\<open>what()\<close> text of the exception that \<^verbatim>\<open>CUDA_CHECK_THROW\<close>
  raises for a failed call: the macro is defined in \<^verbatim>\<open>common_host.h\<close>, which is not
  among the sources, so the text is a parameter.
\<close>

record platform =
  cudaStreamIsCapturing :: "cudaStream_t \<Rightarrow> cudaError_t \<times> cudaStreamCaptureStatus"
  cudaGraphDestroy :: "cudaGraph_t \<Rightarrow> cudaError_t"
  cudaStreamBeginCapture :: "cudaStream_t \<Rightarrow> cudaError_t"
  cudaStreamEndCapture :: "cudaStream_t \<Rightarrow> cudaError_t \<times> cudaGraph_t"
  cudaDeviceSynchronize :: "cudaError_t"
  cudaGraphExecDestroy :: "cudaGraphExec_t \<Rightarrow> cudaError_t"
  cudaGraphExecUpdate :: "cudaGraphExec_t \<Rightarrow> cudaGraph_t \<Rightarrow> cudaError_t \<times> cudaGraphExecUpdateResult"
  cudaGraphInstantiate :: "cudaGraph_t \<Rightarrow> cudaError_t \<times> cudaGraphExec_t"
  cudaGraphLaunch :: "cudaGraphExec_t \<Rightarrow> cudaStream_t \<Rightarrow> cudaError_t"
  what_text :: "call \<Rightarrow> cudaError_t \<Rightarrow> string"

section \<open>The state\<close>

text \<open>The private members of \<^verbatim>\<open>class CudaGraph\<close>, with their initial values.\<close>

record CudaGraph =
  m_graph :: cudaGraph_t
  m_graph_instance :: cudaGraphExec_t
  m_synchronize_when_capture_done :: bool

definition CudaGraph_init :: CudaGraph where
  "CudaGraph_init =
     \<lparr>m_graph = nullptr, m_graph_instance = nullptr, m_synchronize_when_capture_done = False\<rparr>"

text \<open>
  What one host thread sees: the \<^verbatim>\<open>CudaGraph\<close> objects by address, the thread-local
  deque \<^verbatim>\<open>s_current_captures\<close> (front first), the platform calls issued so far (oldest
  first) and the warnings logged so far.
\<close>

record world =
  heap :: "ptr \<Rightarrow> CudaGraph"
  s_current_captures :: "ptr list"
  issued :: "call list"
  warnings :: "string list"

definition world_init :: world where
  "world_init =
     \<lparr>heap = (\<lambda>_. CudaGraph_init), s_current_captures = [], issued = [], warnings = []\<rparr>"

type_synonym 'a prog = "world \<Rightarrow> 'a outcome \<times> world"

definition returns :: "'a \<Rightarrow> 'a prog" where
  "returns x w = (Returned x, w)"

definition throw :: "exn \<Rightarrow> 'a prog" where
  "throw e w = (Thrown e, w)"

text \<open>
  Sequencing: the second statement runs in the state the first one left, unless the first
  one did not return; the state changes made before an exception stay.
\<close>

definition and_then :: "'a prog \<Rightarrow> ('a \<Rightarrow> 'b prog) \<Rightarrow> 'b prog" where
  "and_then m f w =
     (case m w of
        (Returned x, w') \<Rightarrow> f x w'
      | (Thrown e, w') \<Rightarrow> (Thrown e, w')
      | (Undefined, w') \<Rightarrow> (Undefined, w'))"

definition gets :: "(world \<Rightarrow> 'a) \<Rightarrow> 'a prog" where
  "gets f w = (Returned (f w), w)"

definition modify :: "(world \<Rightarrow> world) \<Rightarrow> unit prog" where
  "modify f w = (Returned (), f w)"

definition issue :: "call \<Rightarrow> unit prog" where
  "issue c = modify (\<lambda>w. w\<lparr>issued := issued w @ [c]\<rparr>)"

text \<open>
  Modelled from the spec: \<^verbatim>\<open>CUDA_CHECK_THROW\<close> of \<^verbatim>\<open>common_host.h\<close>, which is not
  among the sources. "Errors surfaced by the underlying platform [...] are treated as fatal
  for that operation and propagate to the caller": a status other than \<^verbatim>\<open>cudaSuccess\<close>
  is thrown as a runtime error.
\<close>

definition CUDA_CHECK_THROW :: "platform \<Rightarrow> call \<Rightarrow> cudaError_t \<Rightarrow> unit prog" where
  "CUDA_CHECK_THROW p c r =
     (if r \<noteq> cudaSuccess then throw (runtime_error (what_text p c r)) else returns ())"

text \<open>Assignments to the members of \<^verbatim>\<open>*this\<close>.\<close>

definition set_m_graph :: "ptr \<Rightarrow> cudaGraph_t \<Rightarrow> unit prog" where
  "set_m_graph this g =
     modify (\<lambda>w. w\<lparr>heap := (heap w)(this := (heap w this)\<lparr>m_graph := g\<rparr>)\<rparr>)"

definition set_m_graph_instance :: "ptr \<Rightarrow> cudaGraphExec_t \<Rightarrow> unit prog" where
  "set_m_graph_instance this g =
     modify (\<lambda>w. w\<lparr>heap := (heap w)(this := (heap w this)\<lparr>m_graph_instance := g\<rparr>)\<rparr>)"

definition set_m_synchronize_when_capture_done :: "ptr \<Rightarrow> bool \<Rightarrow> unit prog" where
  "set_m_synchronize_when_capture_done this b =
     modify (\<lambda>w. w\<lparr>heap := (heap w)(this := (heap w this)\<lparr>m_synchronize_when_capture_done := b\<rparr>)\<rparr>)"

section \<open>The capture session stack\<close>

definition current_captures :: "world \<Rightarrow> ptr list" where
  "current_captures w = s_current_captures w"

text \<open>\<^verbatim>\<open>current_captures().empty() ? nullptr : current_captures().front()\<close>\<close>

definition current_capture :: "world \<Rightarrow> ptr" where
  "current_capture w =
     (if current_captures w = [] then nullptr else hd (current_captures w))"

definition captures_push_back :: "ptr \<Rightarrow> unit prog" where
  "captures_push_back x = modify (\<lambda>w. w\<lparr>s_current_captures := s_current_captures w @ [x]\<rparr>)"

definition captures_back :: "ptr prog" where
  "captures_back w =
     (if current_captures w = [] then (Undefined, w)
      else (Returned (last (current_captures w)), w))"

definition captures_pop_back :: "unit prog" where
  "captures_pop_back w =
     (if current_captures w = [] then (Undefined, w)
      else (Returned (), w\<lparr>s_current_captures := butlast (s_current_captures w)\<rparr>))"

section \<open>The scope guard\<close>

text \<open>
  Modelled from the spec: \<^verbatim>\<open>ScopeGuard\<close> of \<^verbatim>\<open>common_host.h\<close>, which is not among
  the sources. "Given a closure, returns a handle whose destruction invokes the closure
  exactly once"; "a no-op handle if capture did not start". The only closure of the file is
  the finalize lambda, which captures \<^verbatim>\<open>[this, stream]\<close>.
\<close>

datatype ScopeGuard = ScopeGuard_empty | ScopeGuard_finalize ptr cudaStream_t

section \<open>The manager\<close>

text \<open>\<^verbatim>\<open>CudaGraph::reset\<close>\<close>

definition reset :: "platform \<Rightarrow> ptr \<Rightarrow> unit prog" where
  "reset p this =
     and_then (gets (\<lambda>w. m_graph (heap w this))) (\<lambda>g.
     and_then
       (if g \<noteq> nullptr then
          and_then (issue (GraphDestroy g)) (\<lambda>_.
          and_then (CUDA_CHECK_THROW p (GraphDestroy g) (cudaGraphDestroy p g)) (\<lambda>_.
          set_m_graph this nullptr))
        else returns ()) (\<lambda>_.
     and_then (gets (\<lambda>w. m_graph_instance (heap w this))) (\<lambda>e.
     if e \<noteq> nullptr then
       and_then (issue (GraphExecDestroy e)) (\<lambda>_.
       and_then (CUDA_CHECK_THROW p (GraphExecDestroy e) (cudaGraphExecDestroy p e)) (\<lambda>_.
       set_m_graph_instance this nullptr))
     else returns ())))"

text \<open>\<^verbatim>\<open>CudaGraph::schedule_synchronize\<close>\<close>

definition schedule_synchronize :: "ptr \<Rightarrow> unit prog" where
  "schedule_synchronize this = set_m_synchronize_when_capture_done this True"

text \<open>
  \<^verbatim>\<open>std::string::find\<close>: the position of the first occurrence of the pattern, or
  \<open>None\<close> for \<^verbatim>\<open>npos\<close>.
\<close>

fun starts_with :: "string \<Rightarrow> string \<Rightarrow> bool" where
  "starts_with _ [] = True"
| "starts_with [] (_ # _) = False"
| "starts_with (c # cs) (d # ds) = (c = d \<and> starts_with cs ds)"

fun find_str :: "string \<Rightarrow> string \<Rightarrow> nat option" where
  "find_str [] pat = (if pat = [] then Some 0 else None)"
| "find_str (c # cs) pat =
     (if starts_with (c # cs) pat then Some 0 else map_option Suc (find_str cs pat))"

text \<open>
  \<^verbatim>\<open>log_warning\<close> is host-side logging, outside the sources: the formatted line is
  appended to the warnings of the state.
\<close>

definition log_warning :: "string \<Rightarrow> unit prog" where
  "log_warning line = modify (\<lambda>w. w\<lparr>warnings := warnings w @ [line]\<rparr>)"

text \<open>
  \<^verbatim>\<open>CudaGraph::~CudaGraph\<close>: \<^verbatim>\<open>reset()\<close> inside a \<^verbatim>\<open>try\<close> whose handler catches
  \<^verbatim>\<open>const std::runtime_error&\<close>.
\<close>

definition CudaGraph_destructor :: "platform \<Rightarrow> ptr \<Rightarrow> unit prog" where
  "CudaGraph_destructor p this w =
     (case reset p this w of
        (Thrown (runtime_error what), w') \<Rightarrow>
          (if find_str what ''driver shutting down'' = None
           then log_warning (''Could not destroy cuda graph: '' @ what) w'
           else returns () w')
      | r \<Rightarrow> r)"

text \<open>
  The lambda that \<^verbatim>\<open>capture_guard\<close> hands to the guard (lines 91 to 147). The two
  branches of \<^verbatim>\<open>#if CUDA_VERSION >= 12000\<close> differ in how the update result is passed
  back and in nothing else.
\<close>

definition finalize :: "platform \<Rightarrow> ptr \<Rightarrow> cudaStream_t \<Rightarrow> unit prog" where
  "finalize p this stream =
     and_then (issue (StreamEndCapture stream)) (\<lambda>_.
     and_then (set_m_graph this (snd (cudaStreamEndCapture p stream))) (\<lambda>_.
     and_then (CUDA_CHECK_THROW p (StreamEndCapture stream) (fst (cudaStreamEndCapture p stream))) (\<lambda>_.
     and_then captures_back (\<lambda>b.
     if b \<noteq> this then
       throw (runtime_error ''CudaGraph: must end captures in reverse order of creation.'')
     else
     and_then captures_pop_back (\<lambda>_.
     and_then (gets (\<lambda>w. m_synchronize_when_capture_done (heap w this))) (\<lambda>s.
     and_then
       (if s then
          and_then (issue DeviceSynchronize) (\<lambda>_.
          and_then (CUDA_CHECK_THROW p DeviceSynchronize (cudaDeviceSynchronize p)) (\<lambda>_.
          set_m_synchronize_when_capture_done this False))
        else returns ()) (\<lambda>_.
     and_then (gets (\<lambda>w. m_graph (heap w this))) (\<lambda>g.
     if g = nullptr then
       and_then (gets (\<lambda>w. m_graph_instance (heap w this))) (\<lambda>e.
       and_then
         (if e \<noteq> nullptr then
            and_then (issue (GraphExecDestroy e)) (\<lambda>_.
            CUDA_CHECK_THROW p (GraphExecDestroy e) (cudaGraphExecDestroy p e))
          else returns ()) (\<lambda>_.
       and_then (set_m_graph this nullptr) (\<lambda>_.
       set_m_graph_instance this nullptr)))
     else
     and_then (gets (\<lambda>w. m_graph_instance (heap w this))) (\<lambda>e.
     and_then
       (if e \<noteq> nullptr then
          and_then (issue (GraphExecUpdate e g)) (\<lambda>_.
          and_then (CUDA_CHECK_THROW p (GraphExecUpdate e g) (fst (cudaGraphExecUpdate p e g))) (\<lambda>_.
          if snd (cudaGraphExecUpdate p e g) \<noteq> cudaGraphExecUpdateSuccess then
            and_then (issue (GraphExecDestroy e)) (\<lambda>_.
            and_then (CUDA_CHECK_THROW p (GraphExecDestroy e) (cudaGraphExecDestroy p e)) (\<lambda>_.
            set_m_graph_instance this nullptr))
          else returns ()))
        else returns ()) (\<lambda>_.
     and_then (gets (\<lambda>w. m_graph_instance (heap w this))) (\<lambda>e'.
     and_then
       (if e' = nullptr then
          and_then (issue (GraphInstantiate g)) (\<lambda>_.
          and_then (set_m_graph_instance this (snd (cudaGraphInstantiate p g))) (\<lambda>_.
          CUDA_CHECK_THROW p (GraphInstantiate g) (fst (cudaGraphInstantiate p g))))
        else returns ()) (\<lambda>_.
     and_then (gets (\<lambda>w. m_graph_instance (heap w this))) (\<lambda>x.
     and_then (issue (GraphLaunch x stream)) (\<lambda>_.
     CUDA_CHECK_THROW p (GraphLaunch x stream) (cudaGraphLaunch p x stream)))))))))))))))"

text \<open>\<^verbatim>\<open>CudaGraph::capture_guard\<close>\<close>

definition capture_guard :: "platform \<Rightarrow> ptr \<Rightarrow> cudaStream_t \<Rightarrow> ScopeGuard prog" where
  "capture_guard p this stream =
     (if stream = nullptr \<or> stream = cudaStreamLegacy then returns ScopeGuard_empty
      else
      and_then (issue (StreamIsCapturing stream)) (\<lambda>_.
      and_then (CUDA_CHECK_THROW p (StreamIsCapturing stream) (fst (cudaStreamIsCapturing p stream))) (\<lambda>_.
      if snd (cudaStreamIsCapturing p stream) \<noteq> cudaStreamCaptureStatusNone then
        returns ScopeGuard_empty
      else
      and_then (issue (StreamIsCapturing cudaStreamLegacy)) (\<lambda>_.
      if fst (cudaStreamIsCapturing p cudaStreamLegacy) = cudaErrorStreamCaptureImplicit then
        returns ScopeGuard_empty
      else
      and_then (CUDA_CHECK_THROW p (StreamIsCapturing cudaStreamLegacy)
                  (fst (cudaStreamIsCapturing p cudaStreamLegacy))) (\<lambda>_.
      if snd (cudaStreamIsCapturing p cudaStreamLegacy) \<noteq> cudaStreamCaptureStatusNone then
        returns ScopeGuard_empty
      else
      and_then (gets (\<lambda>w. m_graph (heap w this))) (\<lambda>g.
      and_then
        (if g \<noteq> nullptr then
           and_then (issue (GraphDestroy g)) (\<lambda>_.
           and_then (CUDA_CHECK_THROW p (GraphDestroy g) (cudaGraphDestroy p g)) (\<lambda>_.
           set_m_graph this nullptr))
         else returns ()) (\<lambda>_.
      and_then (issue (StreamBeginCapture stream)) (\<lambda>_.
      and_then (CUDA_CHECK_THROW p (StreamBeginCapture stream) (cudaStreamBeginCapture p stream)) (\<lambda>_.
      and_then (captures_push_back this) (\<lambda>_.
      returns (ScopeGuard_finalize this stream)))))))))))"

text \<open>
  Modelled from the spec: the destructor of \<^verbatim>\<open>ScopeGuard\<close> (\<^verbatim>\<open>common_host.h\<close>, not
  among the sources). Going out of scope invokes the closure, if the guard holds one.
\<close>

definition ScopeGuard_release :: "platform \<Rightarrow> ScopeGuard \<Rightarrow> unit prog" where
  "ScopeGuard_release p guard =
     (case guard of
        ScopeGuard_empty \<Rightarrow> returns ()
      | ScopeGuard_finalize this stream \<Rightarrow> finalize p this stream)"

section \<open>Releasing guards in sequence\<close>




section \<open>Example platforms and runs\<close>

text \<open>
  A platform on which every call succeeds: no stream is capturing, stopping a recording
  yields the template \<open>g\<close>, instantiating yields the executable \<open>e\<close>, and an update
  is accepted. The error texts follow \<^verbatim>\<open>cudaGetErrorString\<close> for status 4
  (\<^verbatim>\<open>cudaErrorCudartUnloading\<close>, "driver shutting down").
\<close>

definition error_string :: "cudaError_t \<Rightarrow> string" where
  "error_string r = (if r = 4 then ''driver shutting down'' else ''unspecified launch failure'')"

definition answers :: "cudaGraph_t \<Rightarrow> cudaGraphExec_t \<Rightarrow> platform" where
  "answers g e =
     \<lparr>cudaStreamIsCapturing = (\<lambda>_. (cudaSuccess, cudaStreamCaptureStatusNone)),
      cudaGraphDestroy = (\<lambda>_. cudaSuccess),
      cudaStreamBeginCapture = (\<lambda>_. cudaSuccess),
      cudaStreamEndCapture = (\<lambda>_. (cudaSuccess, g)),
      cudaDeviceSynchronize = cudaSuccess,
      cudaGraphExecDestroy = (\<lambda>_. cudaSuccess),
      cudaGraphExecUpdate = (\<lambda>_ _. (cudaSuccess, cudaGraphExecUpdateSuccess)),
      cudaGraphInstantiate = (\<lambda>_. (cudaSuccess, e)),
      cudaGraphLaunch = (\<lambda>_ _. cudaSuccess),
      what_text = (\<lambda>_ r. ''CUDA call failed: '' @ error_string r)\<rparr>"

text \<open>
  Manager 100 opens a capture on stream 10, then manager 200 opens a nested one on
  stream 20; both are still open.
\<close>

definition nested_world :: world where
  "nested_world =
     snd (capture_guard (answers 7 8) 200 20 (snd (capture_guard (answers 5 6) 100 10 world_init)))"

text \<open>Manager 100 after one complete capture scope on stream 10.\<close>

definition iterated_world :: world where
  "iterated_world =
     snd (finalize (answers 5 6) 100 10 (snd (capture_guard (answers 5 6) 100 10 world_init)))"

text \<open>
  Two platforms on which a destroy call fails: the first with status 4 on
  \<^verbatim>\<open>cudaGraphDestroy\<close>, as during driver shutdown, the second with another status on
  \<^verbatim>\<open>cudaGraphExecDestroy\<close>.
\<close>

definition shutdown_platform :: platform where
  "shutdown_platform = (answers 0 0)\<lparr>cudaGraphDestroy := (\<lambda>_. 4)\<rparr>"

definition failing_platform :: platform where
  "failing_platform = (answers 0 0)\<lparr>cudaGraphExecDestroy := (\<lambda>_. 719)\<rparr>"

text \<open>A platform that refuses to begin a recording.\<close>

definition refusing_platform :: platform where
  "refusing_platform = (answers 0 0)\<lparr>cudaStreamBeginCapture := (\<lambda>_. 900)\<rparr>"

text \<open>
  A platform that yields template 7 and rejects the in-place update of an executable
  (result 1, \<^verbatim>\<open>cudaGraphExecUpdateError\<close>); a fresh executable gets the handle 8.
\<close>

definition rejecting_platform :: platform where
  "rejecting_platform = (answers 7 8)\<lparr>cudaGraphExecUpdate := (\<lambda>_ _. (cudaSuccess, 1))\<rparr>"

text \<open>Manager 100, holding executable 6, inside its second capture scope on stream 10.\<close>

definition second_scope_world :: world where
  "second_scope_world = snd (capture_guard (answers 7 8) 100 10 iterated_world)"

text \<open>
  The second scope of manager 100 ends after \<^verbatim>\<open>schedule_synchronize()\<close> was called.
\<close>

definition synchronized_world :: world where
  "synchronized_world =
     snd (finalize (answers 7 8) 100 10 (snd (schedule_synchronize 100 second_scope_world)))"

text \<open>
  A platform whose stop call reports the failure of the recording by its status (901,
  \<^verbatim>\<open>cudaErrorStreamCaptureInvalidated\<close>) and stores no template.
\<close>

definition invalidated_platform :: platform where
  "invalidated_platform =
     (answers nullptr 8)
       \<lparr>cudaStreamEndCapture := (\<lambda>_. (901, nullptr)),
        what_text := (\<lambda>_ _. ''CUDA call failed: operation failed due to a previous error during capture'')\<rparr>"

text \<open>
  Manager 100 inside its second scope after \<^verbatim>\<open>schedule_synchronize()\<close>, and the
  state in which the finalize action of that scope leaves it on that platform.
\<close>

definition requested_world :: world where
  "requested_world = snd (schedule_synchronize 100 second_scope_world)"

definition failed_stop_world :: world where
  "failed_stop_world = snd (finalize invalidated_platform 100 10 requested_world)"

section \<open>Running the model\<close>

text \<open>
  The definitions of the statements, and the values of the named constants, as rewrite
  rules: with them the simplifier runs an operation on a given state.
\<close>

lemmas constants = nullptr_def cudaStreamLegacy_def cudaSuccess_def
  cudaErrorStreamCaptureImplicit_def cudaGraphExecUpdateSuccess_def

lemma success_not_implicit: "cudaSuccess \<noteq> cudaErrorStreamCaptureImplicit"
  by (simp add: constants)

lemmas exec = and_then_def returns_def throw_def gets_def modify_def issue_def
  set_m_graph_def set_m_graph_instance_def set_m_synchronize_when_capture_done_def
  captures_push_back_def captures_back_def captures_pop_back_def current_captures_def
  CUDA_CHECK_THROW_def log_warning_def success_not_implicit

lemma nested_world_eq:
  "nested_world =
     \<lparr>heap = (\<lambda>_. CudaGraph_init), s_current_captures = [100, 200],
      issued = [StreamIsCapturing 10, StreamIsCapturing cudaStreamLegacy, StreamBeginCapture 10,
                StreamIsCapturing 20, StreamIsCapturing cudaStreamLegacy, StreamBeginCapture 20],
      warnings = []\<rparr>"
  by (simp add: nested_world_def capture_guard_def exec answers_def world_init_def
        CudaGraph_init_def constants fun_eq_iff)

lemma iterated_world_eq:
  "iterated_world =
     \<lparr>heap = (\<lambda>_. CudaGraph_init)
         (100 := \<lparr>m_graph = 5, m_graph_instance = 6, m_synchronize_when_capture_done = False\<rparr>),
      s_current_captures = [],
      issued = [StreamIsCapturing 10, StreamIsCapturing cudaStreamLegacy, StreamBeginCapture 10,
                StreamEndCapture 10, GraphInstantiate 5, GraphLaunch 6 10],
      warnings = []\<rparr>"
  by (simp add: iterated_world_def capture_guard_def finalize_def exec answers_def world_init_def
        CudaGraph_init_def constants fun_eq_iff)

lemma second_scope_world_eq:
  "second_scope_world =
     \<lparr>heap = (\<lambda>_. CudaGraph_init)
         (100 := \<lparr>m_graph = nullptr, m_graph_instance = 6, m_synchronize_when_capture_done = False\<rparr>),
      s_current_captures = [100],
      issued = [StreamIsCapturing 10, StreamIsCapturing cudaStreamLegacy, StreamBeginCapture 10,
                StreamEndCapture 10, GraphInstantiate 5, GraphLaunch 6 10,
                StreamIsCapturing 10, StreamIsCapturing cudaStreamLegacy, GraphDestroy 5,
                StreamBeginCapture 10],
      warnings = []\<rparr>"
  by (simp add: second_scope_world_def iterated_world_eq capture_guard_def exec answers_def
        constants fun_eq_iff)

lemma synchronized_world_eq:
  "synchronized_world =
     \<lparr>heap = (\<lambda>_. CudaGraph_init)
         (100 := \<lparr>m_graph = 7, m_graph_instance = 6, m_synchronize_when_capture_done = False\<rparr>),
      s_current_captures = [],
      issued = issued second_scope_world @
         [StreamEndCapture 10, DeviceSynchronize, GraphExecUpdate 6 7, GraphLaunch 6 10],
      warnings = []\<rparr>"
  by (simp add: synchronized_world_def second_scope_world_eq schedule_synchronize_def finalize_def
        exec answers_def constants fun_eq_iff)

section \<open>The current capture\<close>

lemma hd_last_distinct:
  "distinct xs \<Longrightarrow> xs \<noteq> [] \<Longrightarrow> (hd xs = last xs) = (length xs = 1)"
  by (cases xs) auto

text \<open>
  C1 does not hold as stated. \<^verbatim>\<open>capture_guard\<close> pushes with \<^verbatim>\<open>push_back\<close> and the
  finalize lambda pops with \<^verbatim>\<open>pop_back\<close>, so the most recently opened capture is the
  back of the deque; \<^verbatim>\<open>current_capture\<close> returns the front. With manager 100 and,
  nested in it, manager 200 open, the query answers 100, the outermost capture, and not
  200, the innermost.
\<close>

theorem current_capture_counterexample:
  "s_current_captures nested_world = [100, 200] \<and>
   current_capture nested_world = 100 \<and>
   current_capture nested_world \<noteq> last (s_current_captures nested_world)"
  by (simp add: nested_world_eq current_capture_def current_captures_def)

text \<open>
  C1, amended: in every state of the capture session stack, \<^verbatim>\<open>current_capture\<close>
  returns the first opened capture that is still active (the front of the deque, the
  outermost capture) when the stack is not empty, and \<^verbatim>\<open>nullptr\<close> when it is empty.
  On a stack of distinct managers this is the most recently opened capture exactly when
  one capture is open.
\<close>

theorem current_capture_front:
  "(s_current_captures w = [] \<longrightarrow> current_capture w = nullptr) \<and>
   (s_current_captures w \<noteq> [] \<longrightarrow> current_capture w = hd (s_current_captures w)) \<and>
   (s_current_captures w \<noteq> [] \<and> distinct (s_current_captures w) \<longrightarrow>
      (current_capture w = last (s_current_captures w)) = (length (s_current_captures w) = 1))"
  by (simp add: current_capture_def current_captures_def hd_last_distinct)

theorem current_capture_front_witness:
  "s_current_captures nested_world \<noteq> [] \<and> distinct (s_current_captures nested_world) \<and>
   current_capture nested_world = hd (s_current_captures nested_world) \<and>
   current_capture nested_world \<noteq> last (s_current_captures nested_world) \<and>
   s_current_captures world_init = [] \<and> current_capture world_init = nullptr"
  using current_capture_front [of nested_world] current_capture_front [of world_init]
  by (simp add: nested_world_eq world_init_def)

section \<open>reset\<close>

lemma reset_noop:
  "m_graph (heap w this) = nullptr \<Longrightarrow> m_graph_instance (heap w this) = nullptr \<Longrightarrow>
     reset p this w = (Returned (), w)"
  by (simp add: reset_def exec)

lemma reset_returned:
  "fst (reset p this w) = Returned () \<Longrightarrow>
     m_graph (heap (snd (reset p this w)) this) = nullptr \<and>
     m_graph_instance (heap (snd (reset p this w)) this) = nullptr"
  by (simp add: reset_def exec split: if_splits)

lemma reset_succeeds:
  "cudaGraphDestroy p (m_graph (heap w this)) = cudaSuccess \<Longrightarrow>
   cudaGraphExecDestroy p (m_graph_instance (heap w this)) = cudaSuccess \<Longrightarrow>
     fst (reset p this w) = Returned ()"
  by (simp add: reset_def exec)

lemma reset_twice:
  "and_then (reset p this) (\<lambda>_. reset p' this) w = reset p this w"
  by (simp add: reset_def exec)

lemma reset_defined: "fst (reset p this w) \<noteq> Undefined"
  by (simp add: reset_def exec)

lemma reset_frame:
  "warnings (snd (reset p this w)) = warnings w \<and>
   s_current_captures (snd (reset p this w)) = s_current_captures w"
  by (simp add: reset_def exec)

text \<open>
  C9: \<^verbatim>\<open>reset()\<close> on a manager that holds neither a template nor an executable returns
  with the state as it was (no platform call is issued either). When the platform
  accepts the destroy calls \<^verbatim>\<open>reset()\<close> returns, and whenever it returns both handles
  are \<^verbatim>\<open>nullptr\<close>. The statement sequence \<^verbatim>\<open>reset(); reset();\<close> has the outcome and
  the final state of a single \<^verbatim>\<open>reset();\<close>, whatever the platform answers.
\<close>

theorem reset_idempotent:
  "(m_graph (heap w this) = nullptr \<and> m_graph_instance (heap w this) = nullptr \<longrightarrow>
      reset p this w = (Returned (), w)) \<and>
   (cudaGraphDestroy p (m_graph (heap w this)) = cudaSuccess \<and>
    cudaGraphExecDestroy p (m_graph_instance (heap w this)) = cudaSuccess \<longrightarrow>
      fst (reset p this w) = Returned ()) \<and>
   (fst (reset p this w) = Returned () \<longrightarrow>
      m_graph (heap (snd (reset p this w)) this) = nullptr \<and>
      m_graph_instance (heap (snd (reset p this w)) this) = nullptr) \<and>
   and_then (reset p this) (\<lambda>_. reset p' this) w = reset p this w"
  using reset_noop [of w this p] reset_succeeds [of p w this] reset_returned [of p this w]
    reset_twice [of p this p' w]
  by blast

theorem reset_idempotent_witness:
  "m_graph (heap world_init 100) = nullptr \<and> m_graph_instance (heap world_init 100) = nullptr \<and>
   reset (answers 0 0) 100 world_init = (Returned (), world_init) \<and>
   m_graph (heap iterated_world 100) = 5 \<and> m_graph_instance (heap iterated_world 100) = 6 \<and>
   fst (reset (answers 0 0) 100 iterated_world) = Returned () \<and>
   m_graph (heap (snd (reset (answers 0 0) 100 iterated_world)) 100) = nullptr \<and>
   m_graph_instance (heap (snd (reset (answers 0 0) 100 iterated_world)) 100) = nullptr \<and>
   and_then (reset (answers 0 0) 100) (\<lambda>_. reset (answers 0 0) 100) iterated_world =
     reset (answers 0 0) 100 iterated_world"
  using reset_idempotent [of world_init 100 "answers 0 0" "answers 0 0"]
    reset_idempotent [of iterated_world 100 "answers 0 0" "answers 0 0"]
  by (simp add: iterated_world_eq world_init_def CudaGraph_init_def answers_def)

section \<open>Destruction\<close>

text \<open>
  C8: the destructor always returns, whatever the platform answers. It leaves the handles
  and the issued calls as \<^verbatim>\<open>reset()\<close> leaves them, so when the destroy calls succeed
  both handles are released and nothing is logged. When \<^verbatim>\<open>reset()\<close> throws a runtime
  error, nothing is logged if its text contains "driver shutting down", and exactly one
  warning is logged otherwise; in both cases the error is not raised again.
\<close>

theorem destructor_swallows:
  "fst (CudaGraph_destructor p this w) = Returned () \<and>
   heap (snd (CudaGraph_destructor p this w)) = heap (snd (reset p this w)) \<and>
   issued (snd (CudaGraph_destructor p this w)) = issued (snd (reset p this w)) \<and>
   (cudaGraphDestroy p (m_graph (heap w this)) = cudaSuccess \<and>
    cudaGraphExecDestroy p (m_graph_instance (heap w this)) = cudaSuccess \<longrightarrow>
      m_graph (heap (snd (CudaGraph_destructor p this w)) this) = nullptr \<and>
      m_graph_instance (heap (snd (CudaGraph_destructor p this w)) this) = nullptr \<and>
      warnings (snd (CudaGraph_destructor p this w)) = warnings w) \<and>
   (\<forall>what. fst (reset p this w) = Thrown (runtime_error what) \<longrightarrow>
      warnings (snd (CudaGraph_destructor p this w)) =
        (if find_str what ''driver shutting down'' = None
         then warnings w @ [''Could not destroy cuda graph: '' @ what]
         else warnings w))"
proof (cases "reset p this w")
  case (Pair r w')
  have w': "warnings w' = warnings w"
    using reset_frame [of p this w] Pair by simp
  show ?thesis
  proof (cases r)
    case (Returned u)
    with Pair w' reset_returned [of p this w] show ?thesis
      by (simp add: CudaGraph_destructor_def)
  next
    case (Thrown e)
    obtain what where e: "e = runtime_error what" by (cases e)
    have "\<not> (cudaGraphDestroy p (m_graph (heap w this)) = cudaSuccess \<and>
      cudaGraphExecDestroy p (m_graph_instance (heap w this)) = cudaSuccess)"
      using reset_succeeds [of p w this] Pair Thrown by auto
    with Pair Thrown e w' show ?thesis
      by (auto simp add: CudaGraph_destructor_def exec)
  next
    case Undefined
    with Pair reset_defined [of p this w] show ?thesis by simp
  qed
qed

theorem destructor_swallows_witness:
  "fst (reset shutdown_platform 100 iterated_world) =
     Thrown (runtime_error ''CUDA call failed: driver shutting down'') \<and>
   CudaGraph_destructor shutdown_platform 100 iterated_world =
     (Returned (), iterated_world\<lparr>issued := issued iterated_world @ [GraphDestroy 5]\<rparr>) \<and>
   fst (reset failing_platform 100 iterated_world) =
     Thrown (runtime_error ''CUDA call failed: unspecified launch failure'') \<and>
   fst (CudaGraph_destructor failing_platform 100 iterated_world) = Returned () \<and>
   warnings (snd (CudaGraph_destructor failing_platform 100 iterated_world)) =
     [''Could not destroy cuda graph: CUDA call failed: unspecified launch failure''] \<and>
   CudaGraph_destructor (answers 0 0) 100 iterated_world =
     (Returned (),
      iterated_world\<lparr>heap := (heap iterated_world)(100 := CudaGraph_init),
        issued := issued iterated_world @ [GraphDestroy 5, GraphExecDestroy 6]\<rparr>)"
  using destructor_swallows [of shutdown_platform 100 iterated_world]
    destructor_swallows [of failing_platform 100 iterated_world]
    destructor_swallows [of "answers 0 0" 100 iterated_world]
  by (simp add: iterated_world_eq CudaGraph_destructor_def reset_def exec shutdown_platform_def
        failing_platform_def answers_def error_string_def constants CudaGraph_init_def)

section \<open>Beginning a capture\<close>

text \<open>
  C6: on the null stream and on the legacy default stream \<^verbatim>\<open>capture_guard\<close> returns
  the empty guard and leaves the whole state as it was: no platform call is issued (so no
  recording is started), nothing is pushed, and no member of any manager changes.
  Releasing the empty guard, in whatever state, changes nothing either.
\<close>

theorem capture_guard_default_stream:
  "stream = nullptr \<or> stream = cudaStreamLegacy \<Longrightarrow>
     capture_guard p this stream w = (Returned ScopeGuard_empty, w) \<and>
     ScopeGuard_release p' ScopeGuard_empty w' = (Returned (), w')"
  by (simp add: capture_guard_def ScopeGuard_release_def exec)

theorem capture_guard_default_stream_witness:
  "capture_guard (answers 5 6) 100 nullptr iterated_world = (Returned ScopeGuard_empty, iterated_world) \<and>
   capture_guard (answers 5 6) 100 cudaStreamLegacy iterated_world = (Returned ScopeGuard_empty, iterated_world) \<and>
   ScopeGuard_release (answers 5 6) ScopeGuard_empty nested_world = (Returned (), nested_world)"
  using capture_guard_default_stream [of nullptr "answers 5 6" 100 iterated_world "answers 5 6" nested_world]
    capture_guard_default_stream [of cudaStreamLegacy "answers 5 6" 100 iterated_world "answers 5 6" nested_world]
  by simp

lemma clear_absent_template:
  "m_graph (heap w this) = nullptr \<Longrightarrow>
     (heap w)(this := (heap w this)\<lparr>m_graph := nullptr\<rparr>) = heap w"
  by (simp add: fun_upd_idem)

text \<open>
  C7 does not hold as stated. The test before the recording starts is \<^verbatim>\<open>if (m_graph)\<close>:
  it does not look at the executable. Manager 100, after one complete capture scope, holds
  the template 5 and the executable 6 built from it; its next \<^verbatim>\<open>capture_guard\<close>
  destroys template 5 all the same.
\<close>

theorem capture_guard_discard_counterexample:
  "m_graph (heap iterated_world 100) = 5 \<and> m_graph_instance (heap iterated_world 100) = 6 \<and>
   \<not> (m_graph_instance (heap iterated_world 100) \<noteq> nullptr \<and> m_graph (heap iterated_world 100) = nullptr) \<and>
   issued (snd (capture_guard (answers 7 8) 100 10 iterated_world)) =
     issued iterated_world @
       [StreamIsCapturing 10, StreamIsCapturing cudaStreamLegacy, GraphDestroy 5, StreamBeginCapture 10] \<and>
   m_graph (heap (snd (capture_guard (answers 7 8) 100 10 iterated_world)) 100) = nullptr"
  by (simp add: iterated_world_eq capture_guard_def exec answers_def constants)

text \<open>
  C7, amended: when \<^verbatim>\<open>capture_guard\<close> passes all skip conditions, a pre-existing
  template is destroyed and cleared whenever there is one, whether or not an executable is
  held (the executable is left as it is); then the recording is begun on the stream and
  the manager is pushed onto the capture session stack, and the guard that is returned
  holds the finalize action. The platform is taken to accept the destroy and the begin
  call.
\<close>

theorem capture_guard_proceeds:
  assumes "stream \<noteq> nullptr" and "stream \<noteq> cudaStreamLegacy"
    and "cudaStreamIsCapturing p stream = (cudaSuccess, cudaStreamCaptureStatusNone)"
    and "cudaStreamIsCapturing p cudaStreamLegacy = (cudaSuccess, cudaStreamCaptureStatusNone)"
    and "m_graph (heap w this) \<noteq> nullptr \<longrightarrow> cudaGraphDestroy p (m_graph (heap w this)) = cudaSuccess"
    and "cudaStreamBeginCapture p stream = cudaSuccess"
  shows "capture_guard p this stream w =
     (Returned (ScopeGuard_finalize this stream),
      w\<lparr>heap := (heap w)(this := (heap w this)\<lparr>m_graph := nullptr\<rparr>),
        s_current_captures := s_current_captures w @ [this],
        issued := issued w @ [StreamIsCapturing stream, StreamIsCapturing cudaStreamLegacy]
          @ (if m_graph (heap w this) \<noteq> nullptr then [GraphDestroy (m_graph (heap w this))] else [])
          @ [StreamBeginCapture stream]\<rparr>)"
proof (cases "m_graph (heap w this) = nullptr")
  case True
  with assms clear_absent_template [of w this] show ?thesis
    by (simp add: capture_guard_def exec)
next
  case False
  with assms show ?thesis
    by (simp add: capture_guard_def exec)
qed

theorem capture_guard_proceeds_witness:
  "capture_guard (answers 7 8) 100 10 iterated_world =
     (Returned (ScopeGuard_finalize 100 10),
      iterated_world\<lparr>heap := (heap iterated_world)(100 := (heap iterated_world 100)\<lparr>m_graph := nullptr\<rparr>),
        s_current_captures := [100],
        issued := issued iterated_world @
          [StreamIsCapturing 10, StreamIsCapturing cudaStreamLegacy, GraphDestroy 5, StreamBeginCapture 10]\<rparr>)"
  using capture_guard_proceeds [of 10 "answers 7 8" iterated_world 100]
  by (simp add: iterated_world_eq answers_def constants)

lemma capture_guard_no_begin:
  "cudaStreamBeginCapture p stream \<noteq> cudaSuccess \<Longrightarrow>
     s_current_captures (snd (capture_guard p this stream w)) = s_current_captures w \<and>
     (\<forall>t s. fst (capture_guard p this stream w) \<noteq> Returned (ScopeGuard_finalize t s))"
  by (simp add: capture_guard_def exec)

lemma capture_guard_pushed:
  "s_current_captures (snd (capture_guard p this stream w)) \<noteq> s_current_captures w \<or>
   fst (capture_guard p this stream w) = Returned (ScopeGuard_finalize t s) \<Longrightarrow>
     cudaStreamBeginCapture p stream = cudaSuccess \<and>
     fst (capture_guard p this stream w) = Returned (ScopeGuard_finalize this stream) \<and>
     s_current_captures (snd (capture_guard p this stream w)) = s_current_captures w @ [this] \<and>
     last (issued (snd (capture_guard p this stream w))) = StreamBeginCapture stream"
  by (simp add: capture_guard_def exec split: if_splits)

lemma capture_guard_begin_throws:
  assumes "stream \<noteq> nullptr" and "stream \<noteq> cudaStreamLegacy"
    and "cudaStreamIsCapturing p stream = (cudaSuccess, cudaStreamCaptureStatusNone)"
    and "cudaStreamIsCapturing p cudaStreamLegacy = (cudaSuccess, cudaStreamCaptureStatusNone)"
    and "m_graph (heap w this) \<noteq> nullptr \<longrightarrow> cudaGraphDestroy p (m_graph (heap w this)) = cudaSuccess"
    and "cudaStreamBeginCapture p stream \<noteq> cudaSuccess"
  shows "capture_guard p this stream w =
     (Thrown (runtime_error (what_text p (StreamBeginCapture stream) (cudaStreamBeginCapture p stream))),
      w\<lparr>heap := (heap w)(this := (heap w this)\<lparr>m_graph := nullptr\<rparr>),
        issued := issued w @ [StreamIsCapturing stream, StreamIsCapturing cudaStreamLegacy]
          @ (if m_graph (heap w this) \<noteq> nullptr then [GraphDestroy (m_graph (heap w this))] else [])
          @ [StreamBeginCapture stream]\<rparr>)"
proof (cases "m_graph (heap w this) = nullptr")
  case True
  with assms clear_absent_template [of w this] show ?thesis
    by (simp add: capture_guard_def exec)
next
  case False
  with assms show ?thesis
    by (simp add: capture_guard_def exec)
qed


text \<open>
  C10: the manager is pushed only after \<^verbatim>\<open>cudaStreamBeginCapture\<close> has succeeded.
  Whenever the begin call is refused, the stack is as it was and no guard holding the
  finalize action is returned; when the skip conditions are passed and the begin call is
  refused, its error is what \<^verbatim>\<open>capture_guard\<close> throws, and the begin call is the last
  thing it did. Conversely, a changed stack means that the begin call succeeded, that
  exactly this manager was pushed, and that the guard holds its finalize action.
\<close>

theorem capture_guard_push_after_begin:
  "(cudaStreamBeginCapture p stream \<noteq> cudaSuccess \<longrightarrow>
      s_current_captures (snd (capture_guard p this stream w)) = s_current_captures w \<and>
      (\<forall>t s. fst (capture_guard p this stream w) \<noteq> Returned (ScopeGuard_finalize t s))) \<and>
   (stream \<noteq> nullptr \<and> stream \<noteq> cudaStreamLegacy \<and>
    cudaStreamIsCapturing p stream = (cudaSuccess, cudaStreamCaptureStatusNone) \<and>
    cudaStreamIsCapturing p cudaStreamLegacy = (cudaSuccess, cudaStreamCaptureStatusNone) \<and>
    (m_graph (heap w this) \<noteq> nullptr \<longrightarrow> cudaGraphDestroy p (m_graph (heap w this)) = cudaSuccess) \<and>
    cudaStreamBeginCapture p stream \<noteq> cudaSuccess \<longrightarrow>
      fst (capture_guard p this stream w) =
        Thrown (runtime_error (what_text p (StreamBeginCapture stream) (cudaStreamBeginCapture p stream))) \<and>
      last (issued (snd (capture_guard p this stream w))) = StreamBeginCapture stream) \<and>
   (s_current_captures (snd (capture_guard p this stream w)) \<noteq> s_current_captures w \<longrightarrow>
      cudaStreamBeginCapture p stream = cudaSuccess \<and>
      fst (capture_guard p this stream w) = Returned (ScopeGuard_finalize this stream) \<and>
      s_current_captures (snd (capture_guard p this stream w)) = s_current_captures w @ [this] \<and>
      last (issued (snd (capture_guard p this stream w))) = StreamBeginCapture stream)"
proof (intro conjI impI)
  assume "cudaStreamBeginCapture p stream \<noteq> cudaSuccess"
  then show "s_current_captures (snd (capture_guard p this stream w)) = s_current_captures w"
    and "\<forall>t s. fst (capture_guard p this stream w) \<noteq> Returned (ScopeGuard_finalize t s)"
    using capture_guard_no_begin [of p stream this w] by simp_all
next
  assume a: "stream \<noteq> nullptr \<and> stream \<noteq> cudaStreamLegacy \<and>
    cudaStreamIsCapturing p stream = (cudaSuccess, cudaStreamCaptureStatusNone) \<and>
    cudaStreamIsCapturing p cudaStreamLegacy = (cudaSuccess, cudaStreamCaptureStatusNone) \<and>
    (m_graph (heap w this) \<noteq> nullptr \<longrightarrow> cudaGraphDestroy p (m_graph (heap w this)) = cudaSuccess) \<and>
    cudaStreamBeginCapture p stream \<noteq> cudaSuccess"
  then have r: "capture_guard p this stream w =
     (Thrown (runtime_error (what_text p (StreamBeginCapture stream) (cudaStreamBeginCapture p stream))),
      w\<lparr>heap := (heap w)(this := (heap w this)\<lparr>m_graph := nullptr\<rparr>),
        issued := issued w @ [StreamIsCapturing stream, StreamIsCapturing cudaStreamLegacy]
          @ (if m_graph (heap w this) \<noteq> nullptr then [GraphDestroy (m_graph (heap w this))] else [])
          @ [StreamBeginCapture stream]\<rparr>)"
    by (intro capture_guard_begin_throws) simp_all
  show "fst (capture_guard p this stream w) =
        Thrown (runtime_error (what_text p (StreamBeginCapture stream) (cudaStreamBeginCapture p stream)))"
    by (simp add: r)
  show "last (issued (snd (capture_guard p this stream w))) = StreamBeginCapture stream"
    by (simp add: r)
next
  assume "s_current_captures (snd (capture_guard p this stream w)) \<noteq> s_current_captures w"
  then show "cudaStreamBeginCapture p stream = cudaSuccess"
    and "fst (capture_guard p this stream w) = Returned (ScopeGuard_finalize this stream)"
    and "s_current_captures (snd (capture_guard p this stream w)) = s_current_captures w @ [this]"
    and "last (issued (snd (capture_guard p this stream w))) = StreamBeginCapture stream"
    using capture_guard_pushed [of p this stream w] by simp_all
qed

lemma refused_run:
  "capture_guard refusing_platform 100 10 iterated_world =
     (Thrown (runtime_error ''CUDA call failed: unspecified launch failure''),
      iterated_world\<lparr>heap := (heap iterated_world)(100 := (heap iterated_world 100)\<lparr>m_graph := nullptr\<rparr>),
        issued := issued iterated_world @
          [StreamIsCapturing 10, StreamIsCapturing cudaStreamLegacy, GraphDestroy 5, StreamBeginCapture 10]\<rparr>)"
  by (simp add: iterated_world_eq capture_guard_def exec refusing_platform_def answers_def
        error_string_def constants)

lemma accepted_run:
  "capture_guard (answers 7 8) 100 10 iterated_world =
     (Returned (ScopeGuard_finalize 100 10),
      iterated_world\<lparr>heap := (heap iterated_world)(100 := (heap iterated_world 100)\<lparr>m_graph := nullptr\<rparr>),
        s_current_captures := [100],
        issued := issued iterated_world @
          [StreamIsCapturing 10, StreamIsCapturing cudaStreamLegacy, GraphDestroy 5, StreamBeginCapture 10]\<rparr>)"
  by (simp add: iterated_world_eq capture_guard_def exec answers_def constants)

lemma refusing_begin: "cudaStreamBeginCapture refusing_platform 10 \<noteq> cudaSuccess"
  by (simp add: refusing_platform_def constants)

lemma iterated_world_stack: "s_current_captures iterated_world = []"
  by (simp add: iterated_world_eq)

theorem capture_guard_push_after_begin_witness:
  "cudaStreamBeginCapture refusing_platform 10 \<noteq> cudaSuccess \<and>
   fst (capture_guard refusing_platform 100 10 iterated_world) =
     Thrown (runtime_error ''CUDA call failed: unspecified launch failure'') \<and>
   s_current_captures (snd (capture_guard refusing_platform 100 10 iterated_world)) =
     s_current_captures iterated_world \<and>
   s_current_captures (snd (capture_guard (answers 7 8) 100 10 iterated_world)) \<noteq>
     s_current_captures iterated_world \<and>
   fst (capture_guard (answers 7 8) 100 10 iterated_world) = Returned (ScopeGuard_finalize 100 10)"
  using capture_guard_push_after_begin [of refusing_platform 10 100 iterated_world]
    capture_guard_push_after_begin [of "answers 7 8" 10 100 iterated_world]
  by (simp add: refused_run accepted_run refusing_begin iterated_world_stack)

section \<open>Ending a capture\<close>

text \<open>
  The stop call is checked by \<^verbatim>\<open>CUDA_CHECK_THROW\<close> in the first statement of the
  finalize action (line 92). When its status is not \<^verbatim>\<open>cudaSuccess\<close> the action
  throws there: the template it stored and the recorded call are its only effects, and
  neither the stack nor the executable nor the flag is touched.
\<close>

lemma finalize_stop_fails:
  assumes "fst (cudaStreamEndCapture p stream) \<noteq> cudaSuccess"
  shows "finalize p this stream w =
     (Thrown (runtime_error (what_text p (StreamEndCapture stream) (fst (cudaStreamEndCapture p stream)))),
      w\<lparr>heap := (heap w)(this := (heap w this)\<lparr>m_graph := snd (cudaStreamEndCapture p stream)\<rparr>),
        issued := issued w @ [StreamEndCapture stream]\<rparr>)"
  using assms by (simp add: finalize_def exec)

lemma invalidated_stop:
  "cudaStreamEndCapture invalidated_platform 10 = (901, nullptr)"
  "fst (cudaStreamEndCapture invalidated_platform 10) \<noteq> cudaSuccess"
  "what_text invalidated_platform (StreamEndCapture 10) 901 =
     ''CUDA call failed: operation failed due to a previous error during capture''"
  by (simp_all add: invalidated_platform_def answers_def constants)

text \<open>
  C4 does not hold as stated. A recording that fails may be reported by the status of
  the stop call, which then stores no template. Manager 100, on top of the stack and
  holding executable 6, ends its scope on such a platform: the finalize action throws the
  platform error instead of returning, executable 6 is neither destroyed nor cleared, and
  the manager stays on the stack.
\<close>

theorem finalize_capture_failed_counterexample:
  "cudaStreamEndCapture invalidated_platform 10 = (901, nullptr) \<and>
   s_current_captures second_scope_world = [100] \<and>
   m_graph_instance (heap second_scope_world 100) = 6 \<and>
   fst (finalize invalidated_platform 100 10 second_scope_world) =
     Thrown (runtime_error ''CUDA call failed: operation failed due to a previous error during capture'') \<and>
   m_graph (heap (snd (finalize invalidated_platform 100 10 second_scope_world)) 100) = nullptr \<and>
   m_graph_instance (heap (snd (finalize invalidated_platform 100 10 second_scope_world)) 100) = 6 \<and>
   issued (snd (finalize invalidated_platform 100 10 second_scope_world)) =
     issued second_scope_world @ [StreamEndCapture 10] \<and>
   s_current_captures (snd (finalize invalidated_platform 100 10 second_scope_world)) = [100]"
  using finalize_stop_fails [OF invalidated_stop(2), of 100 second_scope_world]
  by (simp add: invalidated_stop(1,3) second_scope_world_eq)

text \<open>
  C4, amended: when the stop call itself returns \<^verbatim>\<open>cudaSuccess\<close> but yields no
  template, and the manager is the top of the stack, the finalize action returns normally
  with both handles cleared; after the stop call (and the synchronization, if one is
  pending) the only platform call is the destruction of the held executable, if there was
  one. Nothing is launched. The platform is taken to accept the synchronization and the
  destroy call.
\<close>

theorem finalize_capture_failed:
  assumes "s_current_captures w \<noteq> []" and "last (s_current_captures w) = this"
    and "cudaStreamEndCapture p stream = (cudaSuccess, nullptr)"
    and "m_synchronize_when_capture_done (heap w this) \<longrightarrow> cudaDeviceSynchronize p = cudaSuccess"
    and "m_graph_instance (heap w this) \<noteq> nullptr \<longrightarrow>
           cudaGraphExecDestroy p (m_graph_instance (heap w this)) = cudaSuccess"
  shows "fst (finalize p this stream w) = Returned () \<and>
     m_graph (heap (snd (finalize p this stream w)) this) = nullptr \<and>
     m_graph_instance (heap (snd (finalize p this stream w)) this) = nullptr \<and>
     issued (snd (finalize p this stream w)) =
       issued w @ [StreamEndCapture stream]
         @ (if m_synchronize_when_capture_done (heap w this) then [DeviceSynchronize] else [])
         @ (if m_graph_instance (heap w this) \<noteq> nullptr
            then [GraphExecDestroy (m_graph_instance (heap w this))] else []) \<and>
     (\<forall>x s. GraphLaunch x s \<notin> set (drop (length (issued w)) (issued (snd (finalize p this stream w)))))"
  using assms by (simp add: finalize_def exec)



theorem finalize_capture_failed_witness:
  "cudaStreamEndCapture (answers nullptr 8) 10 = (cudaSuccess, nullptr) \<and>
   m_graph_instance (heap second_scope_world 100) = 6 \<and>
   fst (finalize (answers nullptr 8) 100 10 second_scope_world) = Returned () \<and>
   m_graph (heap (snd (finalize (answers nullptr 8) 100 10 second_scope_world)) 100) = nullptr \<and>
   m_graph_instance (heap (snd (finalize (answers nullptr 8) 100 10 second_scope_world)) 100) = nullptr \<and>
   issued (snd (finalize (answers nullptr 8) 100 10 second_scope_world)) =
     issued second_scope_world @ [StreamEndCapture 10, GraphExecDestroy 6]"
  using finalize_capture_failed [of second_scope_world 100 "answers nullptr 8" 10]
  by (simp add: second_scope_world_eq answers_def constants)

lemma finalize_updated:
  assumes "s_current_captures w \<noteq> []" and "last (s_current_captures w) = this"
    and "cudaStreamEndCapture p stream = (cudaSuccess, g)" and "g \<noteq> nullptr"
    and "m_graph_instance (heap w this) = e" and "e \<noteq> nullptr"
    and "m_synchronize_when_capture_done (heap w this) \<longrightarrow> cudaDeviceSynchronize p = cudaSuccess"
    and "cudaGraphExecUpdate p e g = (cudaSuccess, cudaGraphExecUpdateSuccess)"
  shows "finalize p this stream w =
     (if cudaGraphLaunch p e stream = cudaSuccess then Returned ()
      else Thrown (runtime_error (what_text p (GraphLaunch e stream) (cudaGraphLaunch p e stream))),
      w\<lparr>heap := (heap w)(this := (heap w this)\<lparr>m_graph := g, m_synchronize_when_capture_done := False\<rparr>),
        s_current_captures := butlast (s_current_captures w),
        issued := issued w @ [StreamEndCapture stream]
           @ (if m_synchronize_when_capture_done (heap w this) then [DeviceSynchronize] else [])
           @ [GraphExecUpdate e g, GraphLaunch e stream]\<rparr>)"
proof -
  obtain a b c where h: "heap w this = \<lparr>m_graph = a, m_graph_instance = b, m_synchronize_when_capture_done = c\<rparr>"
    by (cases "heap w this") simp
  with assms show ?thesis by (simp add: finalize_def exec)
qed


lemma finalize_rebuilt:
  assumes "s_current_captures w \<noteq> []" and "last (s_current_captures w) = this"
    and "cudaStreamEndCapture p stream = (cudaSuccess, g)" and "g \<noteq> nullptr"
    and "m_graph_instance (heap w this) = e" and "e \<noteq> nullptr"
    and "m_synchronize_when_capture_done (heap w this) \<longrightarrow> cudaDeviceSynchronize p = cudaSuccess"
    and "fst (cudaGraphExecUpdate p e g) = cudaSuccess"
    and "snd (cudaGraphExecUpdate p e g) \<noteq> cudaGraphExecUpdateSuccess"
    and "cudaGraphExecDestroy p e = cudaSuccess"
    and "cudaGraphInstantiate p g = (cudaSuccess, e')"
  shows "finalize p this stream w =
     (if cudaGraphLaunch p e' stream = cudaSuccess then Returned ()
      else Thrown (runtime_error (what_text p (GraphLaunch e' stream) (cudaGraphLaunch p e' stream))),
      w\<lparr>heap := (heap w)(this := \<lparr>m_graph = g, m_graph_instance = e',
                                    m_synchronize_when_capture_done = False\<rparr>),
        s_current_captures := butlast (s_current_captures w),
        issued := issued w @ [StreamEndCapture stream]
           @ (if m_synchronize_when_capture_done (heap w this) then [DeviceSynchronize] else [])
           @ [GraphExecUpdate e g, GraphExecDestroy e, GraphInstantiate g, GraphLaunch e' stream]\<rparr>)"
proof -
  obtain a b c where h: "heap w this = \<lparr>m_graph = a, m_graph_instance = b, m_synchronize_when_capture_done = c\<rparr>"
    by (cases "heap w this") simp
  with assms show ?thesis by (simp add: finalize_def exec)
qed

text \<open>
  C3: the manager is the top of the stack, stopping the recording yields a template \<open>g\<close>,
  an executable \<open>e\<close> is held, and the update call itself is not a hard error. If the
  update is accepted, the executable handle stays \<open>e\<close> and the platform calls after the
  stop (and the pending synchronization) are the update and the launch of \<open>e\<close>: nothing
  is destroyed or instantiated. If the update is rejected, the calls are the update, the
  destruction of \<open>e\<close>, one instantiation from \<open>g\<close> and the launch of the executable
  that this instantiation returned, which is the one the manager holds afterwards.
\<close>

theorem finalize_update_or_rebuild:
  assumes "s_current_captures w \<noteq> []" and "last (s_current_captures w) = this"
    and "cudaStreamEndCapture p stream = (cudaSuccess, g)" and "g \<noteq> nullptr"
    and "m_graph_instance (heap w this) = e" and "e \<noteq> nullptr"
    and "m_synchronize_when_capture_done (heap w this) \<longrightarrow> cudaDeviceSynchronize p = cudaSuccess"
    and "fst (cudaGraphExecUpdate p e g) = cudaSuccess"
  shows "(snd (cudaGraphExecUpdate p e g) = cudaGraphExecUpdateSuccess \<longrightarrow>
       m_graph_instance (heap (snd (finalize p this stream w)) this) = e \<and>
       m_graph (heap (snd (finalize p this stream w)) this) = g \<and>
       issued (snd (finalize p this stream w)) =
         issued w @ [StreamEndCapture stream]
           @ (if m_synchronize_when_capture_done (heap w this) then [DeviceSynchronize] else [])
           @ [GraphExecUpdate e g, GraphLaunch e stream] \<and>
       (cudaGraphLaunch p e stream = cudaSuccess \<longrightarrow> fst (finalize p this stream w) = Returned ())) \<and>
     (snd (cudaGraphExecUpdate p e g) \<noteq> cudaGraphExecUpdateSuccess \<and>
      cudaGraphExecDestroy p e = cudaSuccess \<and> fst (cudaGraphInstantiate p g) = cudaSuccess \<longrightarrow>
       m_graph_instance (heap (snd (finalize p this stream w)) this) = snd (cudaGraphInstantiate p g) \<and>
       m_graph (heap (snd (finalize p this stream w)) this) = g \<and>
       issued (snd (finalize p this stream w)) =
         issued w @ [StreamEndCapture stream]
           @ (if m_synchronize_when_capture_done (heap w this) then [DeviceSynchronize] else [])
           @ [GraphExecUpdate e g, GraphExecDestroy e, GraphInstantiate g,
              GraphLaunch (snd (cudaGraphInstantiate p g)) stream] \<and>
       (cudaGraphLaunch p (snd (cudaGraphInstantiate p g)) stream = cudaSuccess \<longrightarrow>
          fst (finalize p this stream w) = Returned ()))"
proof (intro conjI impI)
  assume "snd (cudaGraphExecUpdate p e g) = cudaGraphExecUpdateSuccess"
  with assms(8) have "cudaGraphExecUpdate p e g = (cudaSuccess, cudaGraphExecUpdateSuccess)"
    by (simp add: prod_eq_iff)
  note r = finalize_updated [OF assms(1-7) this]
  show "m_graph_instance (heap (snd (finalize p this stream w)) this) = e"
    using assms(5) by (simp add: r)
  show "m_graph (heap (snd (finalize p this stream w)) this) = g"
    by (simp add: r)
  show "issued (snd (finalize p this stream w)) =
         issued w @ [StreamEndCapture stream]
           @ (if m_synchronize_when_capture_done (heap w this) then [DeviceSynchronize] else [])
           @ [GraphExecUpdate e g, GraphLaunch e stream]"
    by (simp add: r)
  show "fst (finalize p this stream w) = Returned ()" if "cudaGraphLaunch p e stream = cudaSuccess"
    using that by (simp add: r)
next
  assume a: "snd (cudaGraphExecUpdate p e g) \<noteq> cudaGraphExecUpdateSuccess \<and>
      cudaGraphExecDestroy p e = cudaSuccess \<and> fst (cudaGraphInstantiate p g) = cudaSuccess"
  then have i: "cudaGraphInstantiate p g = (cudaSuccess, snd (cudaGraphInstantiate p g))"
    by (simp add: prod_eq_iff)
  from a have "snd (cudaGraphExecUpdate p e g) \<noteq> cudaGraphExecUpdateSuccess"
    and "cudaGraphExecDestroy p e = cudaSuccess" by simp_all
  note r = finalize_rebuilt [OF assms this i]
  show "m_graph_instance (heap (snd (finalize p this stream w)) this) = snd (cudaGraphInstantiate p g)"
    by (simp add: r)
  show "m_graph (heap (snd (finalize p this stream w)) this) = g"
    by (simp add: r)
  show "issued (snd (finalize p this stream w)) =
         issued w @ [StreamEndCapture stream]
           @ (if m_synchronize_when_capture_done (heap w this) then [DeviceSynchronize] else [])
           @ [GraphExecUpdate e g, GraphExecDestroy e, GraphInstantiate g,
              GraphLaunch (snd (cudaGraphInstantiate p g)) stream]"
    by (simp add: r)
  show "fst (finalize p this stream w) = Returned ()"
    if "cudaGraphLaunch p (snd (cudaGraphInstantiate p g)) stream = cudaSuccess"
    using that by (simp add: r)
qed

theorem finalize_update_or_rebuild_witness:
  "m_graph_instance (heap second_scope_world 100) = 6 \<and>
   cudaGraphExecUpdate (answers 7 8) 6 7 = (cudaSuccess, cudaGraphExecUpdateSuccess) \<and>
   m_graph_instance (heap (snd (finalize (answers 7 8) 100 10 second_scope_world)) 100) = 6 \<and>
   issued (snd (finalize (answers 7 8) 100 10 second_scope_world)) =
     issued second_scope_world @ [StreamEndCapture 10, GraphExecUpdate 6 7, GraphLaunch 6 10] \<and>
   fst (finalize (answers 7 8) 100 10 second_scope_world) = Returned () \<and>
   snd (cudaGraphExecUpdate rejecting_platform 6 7) \<noteq> cudaGraphExecUpdateSuccess \<and>
   m_graph_instance (heap (snd (finalize rejecting_platform 100 10 second_scope_world)) 100) = 8 \<and>
   issued (snd (finalize rejecting_platform 100 10 second_scope_world)) =
     issued second_scope_world @
       [StreamEndCapture 10, GraphExecUpdate 6 7, GraphExecDestroy 6, GraphInstantiate 7,
        GraphLaunch 8 10] \<and>
   fst (finalize rejecting_platform 100 10 second_scope_world) = Returned ()"
  using finalize_update_or_rebuild [of second_scope_world 100 "answers 7 8" 10 7 6]
    finalize_update_or_rebuild [of second_scope_world 100 rejecting_platform 10 7 6]
  by (simp add: second_scope_world_eq rejecting_platform_def answers_def constants)

section \<open>Closing order\<close>







section \<open>Scheduled synchronization\<close>

lemma finalize_without_request:
  "\<not> m_synchronize_when_capture_done (heap w this) \<Longrightarrow>
     \<exists>cs. issued (snd (finalize p this stream w)) = issued w @ cs \<and> DeviceSynchronize \<notin> set cs"
  by (simp add: finalize_def exec)

lemma capture_guard_never_synchronizes:
  "\<exists>cs. issued (snd (capture_guard p this stream w)) = issued w @ cs \<and> DeviceSynchronize \<notin> set cs"
  by (simp add: capture_guard_def exec)

lemma capture_guard_keeps_request:
  "m_synchronize_when_capture_done (heap (snd (capture_guard p this stream w)) t) =
     m_synchronize_when_capture_done (heap w t)"
  by (simp add: capture_guard_def exec)

lemma finalize_with_request:
  assumes "s_current_captures w \<noteq> []" and "last (s_current_captures w) = this"
    and "fst (cudaStreamEndCapture p stream) = cudaSuccess"
    and "m_synchronize_when_capture_done (heap w this)"
  shows "\<exists>cs. issued (snd (finalize p this stream w)) =
           issued w @ [StreamEndCapture stream, DeviceSynchronize] @ cs"
  using assms by (simp add: finalize_def exec)

lemma finalize_clears_request:
  assumes "s_current_captures w \<noteq> []" and "last (s_current_captures w) = this"
    and "fst (cudaStreamEndCapture p stream) = cudaSuccess"
    and "cudaDeviceSynchronize p = cudaSuccess"
  shows "\<not> m_synchronize_when_capture_done (heap (snd (finalize p this stream w)) this)"
  using assms by (simp add: finalize_def exec)


lemma requested_world_eq:
  "requested_world =
     second_scope_world\<lparr>heap := (heap second_scope_world)
       (100 := \<lparr>m_graph = nullptr, m_graph_instance = 6, m_synchronize_when_capture_done = True\<rparr>)\<rparr>"
  by (simp add: requested_world_def schedule_synchronize_def exec second_scope_world_eq)

lemma failed_stop_world_eq:
  "failed_stop_world =
     requested_world\<lparr>issued := issued second_scope_world @ [StreamEndCapture 10]\<rparr>"
  using finalize_stop_fails [OF invalidated_stop(2), of 100 requested_world]
  by (simp add: invalidated_stop(1,3) failed_stop_world_def requested_world_eq
        second_scope_world_eq)

text \<open>
  C5 does not hold as stated. The synchronization does not run whatever the outcome of
  the recording: when the stop call reports a failure by its status, the finalize action
  throws before it looks at the flag. Manager 100 calls \<^verbatim>\<open>schedule_synchronize()\<close>
  and ends its scope on such a platform: no \<^verbatim>\<open>cudaDeviceSynchronize\<close> is issued and
  the flag stays set. Its following scope, with no new \<^verbatim>\<open>schedule_synchronize()\<close>,
  then issues \<^verbatim>\<open>cudaDeviceSynchronize\<close>.
\<close>

theorem finalize_synchronizes_counterexample:
  "m_synchronize_when_capture_done (heap requested_world 100) \<and>
   s_current_captures requested_world = [100] \<and>
   cudaStreamEndCapture invalidated_platform 10 = (901, nullptr) \<and>
   fst (finalize invalidated_platform 100 10 requested_world) =
     Thrown (runtime_error ''CUDA call failed: operation failed due to a previous error during capture'') \<and>
   issued failed_stop_world = issued requested_world @ [StreamEndCapture 10] \<and>
   m_synchronize_when_capture_done (heap failed_stop_world 100) \<and>
   issued (snd (finalize (answers 9 8) 100 10
      (snd (capture_guard (answers 9 8) 100 10 failed_stop_world)))) =
     issued failed_stop_world @
       [StreamIsCapturing 10, StreamIsCapturing cudaStreamLegacy, StreamBeginCapture 10,
        StreamEndCapture 10, DeviceSynchronize, GraphExecUpdate 6 9, GraphLaunch 6 10]"
proof -
  have a: "m_synchronize_when_capture_done (heap requested_world 100)"
    "s_current_captures requested_world = [100]"
    "issued requested_world = issued second_scope_world"
    by (simp_all add: requested_world_eq second_scope_world_eq)
  have b: "fst (finalize invalidated_platform 100 10 requested_world) =
     Thrown (runtime_error ''CUDA call failed: operation failed due to a previous error during capture'')"
    using finalize_stop_fails [OF invalidated_stop(2), of 100 requested_world]
    by (simp add: invalidated_stop(1,3))
  have c: "issued failed_stop_world = issued requested_world @ [StreamEndCapture 10]"
    "m_synchronize_when_capture_done (heap failed_stop_world 100)"
    by (simp_all add: failed_stop_world_eq requested_world_eq second_scope_world_eq)
  have d: "issued (snd (finalize (answers 9 8) 100 10
      (snd (capture_guard (answers 9 8) 100 10 failed_stop_world)))) =
     issued failed_stop_world @
       [StreamIsCapturing 10, StreamIsCapturing cudaStreamLegacy, StreamBeginCapture 10,
        StreamEndCapture 10, DeviceSynchronize, GraphExecUpdate 6 9, GraphLaunch 6 10]"
    by (simp add: failed_stop_world_eq requested_world_eq second_scope_world_eq capture_guard_def
          finalize_def exec answers_def constants)
  from a b c d invalidated_stop(1) show ?thesis by simp
qed

text \<open>
  C5, amended: \<^verbatim>\<open>schedule_synchronize()\<close> is called and then the scope ends, with the
  manager on top of the stack and the stop call returning \<^verbatim>\<open>cudaSuccess\<close>; nothing is
  assumed about the template the stop call yields. Then the finalize action calls
  \<^verbatim>\<open>cudaDeviceSynchronize\<close> right after the stop call. When the synchronization
  succeeds the flag is cleared, and a following scope of the same manager
  (\<^verbatim>\<open>capture_guard\<close>, then its finalize action, with no
  \<^verbatim>\<open>schedule_synchronize()\<close> in between) issues no \<^verbatim>\<open>cudaDeviceSynchronize\<close>,
  whatever the platform answers.
\<close>

theorem finalize_synchronizes:
  assumes "s_current_captures w \<noteq> []" and "last (s_current_captures w) = this"
    and "fst (cudaStreamEndCapture p stream) = cudaSuccess"
  shows "(\<exists>cs. issued (snd (finalize p this stream (snd (schedule_synchronize this w)))) =
            issued w @ [StreamEndCapture stream, DeviceSynchronize] @ cs) \<and>
     (cudaDeviceSynchronize p = cudaSuccess \<longrightarrow>
        \<not> m_synchronize_when_capture_done
             (heap (snd (finalize p this stream (snd (schedule_synchronize this w)))) this) \<and>
        (\<exists>cs. issued (snd (finalize p'' this stream'
                   (snd (capture_guard p' this stream'
                      (snd (finalize p this stream (snd (schedule_synchronize this w)))))))) =
               issued (snd (finalize p this stream (snd (schedule_synchronize this w)))) @ cs \<and>
             DeviceSynchronize \<notin> set cs))"
proof (intro conjI impI)
  let ?w = "snd (schedule_synchronize this w)"
  let ?w1 = "snd (finalize p this stream ?w)"
  have top: "s_current_captures ?w \<noteq> []" "last (s_current_captures ?w) = this"
    and req: "m_synchronize_when_capture_done (heap ?w this)"
    and iss: "issued ?w = issued w"
    using assms by (simp_all add: schedule_synchronize_def exec)
  from finalize_with_request [OF top assms(3) req] iss
  show "\<exists>cs. issued ?w1 = issued w @ [StreamEndCapture stream, DeviceSynchronize] @ cs"
    by simp
  assume sync: "cudaDeviceSynchronize p = cudaSuccess"
  show cleared: "\<not> m_synchronize_when_capture_done (heap ?w1 this)"
    by (rule finalize_clears_request [OF top assms(3) sync])
  let ?w2 = "snd (capture_guard p' this stream' ?w1)"
  from capture_guard_never_synchronizes [of p' this stream' ?w1]
  obtain cs1 where cs1: "issued ?w2 = issued ?w1 @ cs1" "DeviceSynchronize \<notin> set cs1"
    by blast
  from cleared have "\<not> m_synchronize_when_capture_done (heap ?w2 this)"
    by (simp add: capture_guard_keeps_request)
  from finalize_without_request [OF this, of p'' stream']
  obtain cs2 where cs2: "issued (snd (finalize p'' this stream' ?w2)) = issued ?w2 @ cs2"
      "DeviceSynchronize \<notin> set cs2"
    by blast
  from cs1 cs2 have "issued (snd (finalize p'' this stream' ?w2)) = issued ?w1 @ (cs1 @ cs2) \<and>
      DeviceSynchronize \<notin> set (cs1 @ cs2)"
    by simp
  then show "\<exists>cs. issued (snd (finalize p'' this stream' ?w2)) = issued ?w1 @ cs \<and>
      DeviceSynchronize \<notin> set cs"
    by blast
qed

theorem finalize_synchronizes_witness:
  "s_current_captures second_scope_world \<noteq> [] \<and>
   last (s_current_captures second_scope_world) = 100 \<and>
   fst (cudaStreamEndCapture (answers 7 8) 10) = cudaSuccess \<and>
   cudaDeviceSynchronize (answers 7 8) = cudaSuccess \<and>
   issued synchronized_world =
     issued second_scope_world @
       [StreamEndCapture 10, DeviceSynchronize, GraphExecUpdate 6 7, GraphLaunch 6 10] \<and>
   \<not> m_synchronize_when_capture_done (heap synchronized_world 100) \<and>
   issued (snd (finalize (answers 9 8) 100 10
      (snd (capture_guard (answers 9 8) 100 10 synchronized_world)))) =
     issued synchronized_world @
       [StreamIsCapturing 10, StreamIsCapturing cudaStreamLegacy, GraphDestroy 7,
        StreamBeginCapture 10, StreamEndCapture 10, GraphExecUpdate 6 9, GraphLaunch 6 10]"
proof -
  have top: "s_current_captures second_scope_world \<noteq> []"
    "last (s_current_captures second_scope_world) = 100"
    by (simp_all add: second_scope_world_eq)
  have ok: "fst (cudaStreamEndCapture (answers 7 8) 10) = cudaSuccess"
    and sync: "cudaDeviceSynchronize (answers 7 8) = cudaSuccess"
    by (simp_all add: answers_def)
  from finalize_synchronizes [OF top ok, of "answers 9 8" 10 "answers 9 8"] sync
  have cleared: "\<not> m_synchronize_when_capture_done (heap synchronized_world 100)"
    by (simp add: synchronized_world_def)
  have first: "issued synchronized_world =
     issued second_scope_world @
       [StreamEndCapture 10, DeviceSynchronize, GraphExecUpdate 6 7, GraphLaunch 6 10]"
    by (simp add: synchronized_world_eq)
  have "issued (snd (finalize (answers 9 8) 100 10
      (snd (capture_guard (answers 9 8) 100 10 synchronized_world)))) =
     issued synchronized_world @
       [StreamIsCapturing 10, StreamIsCapturing cudaStreamLegacy, GraphDestroy 7,
        StreamBeginCapture 10, StreamEndCapture 10, GraphExecUpdate 6 9, GraphLaunch 6 10]"
    by (simp add: synchronized_world_eq capture_guard_def finalize_def exec answers_def constants)
  with top ok sync cleared first show ?thesis
    by blast
qed

end
